theory Spec2Isabelle
  imports Main "HOL-Library.Word"
begin

section \<open>Package conntest: fakes for package conn\<close>

text \<open>
  The embedding follows \<^verbatim>\<open>conn/conntest/conntest.go\<close>.

  \<^item> A Go \<^verbatim>\<open>[]byte\<close> is modelled by its contents, a list of 8-bit words. The
    source only applies \<^verbatim>\<open>len\<close>, \<^verbatim>\<open>copy\<close>, \<^verbatim>\<open>make\<close> and
    \<^verbatim>\<open>bytes.Equal\<close> to its slices, none of which tells a nil slice from an empty
    one, so both are the empty list.
  \<^item> A method with a pointer receiver takes the receiver's value and returns the
    updated one. \<^verbatim>\<open>Tx\<close> writes through its read slice, so it also returns the
    contents of the caller's read buffer after the call.
  \<^item> The two slices a caller hands to \<^verbatim>\<open>Record.Tx\<close> may be windows on the same
    array, and the delegated \<^verbatim>\<open>Tx\<close> runs before the source copies them. So
    \<open>Record_Tx_mem\<close> embeds the method over the caller's memory, with the slices as
    windows on it, and \<open>Record_Tx\<close> is that function on two buffers laid out apart.
    The buffers a log holds are its own: \<^verbatim>\<open>Record.Tx\<close> allocates them with
    \<^verbatim>\<open>make\<close>.
  \<^item> Every method holds the instance's mutex from entry to every exit, so a call is
    one atomic step on the instance; the lock itself has no other effect and is not a
    field of the model.
\<close>

subsection \<open>Bytes, errors and the built-ins the source uses\<close>

type_synonym byte = "8 word"
type_synonym bytes = "byte list"

text \<open>
  A Go \<^verbatim>\<open>error\<close> value. \<open>errors_New\<close> carries the message of
  \<^verbatim>\<open>errors.New\<close>; the two other constructors are the two \<^verbatim>\<open>fmt.Errorf\<close> calls
  of \<^verbatim>\<open>Playback.Tx\<close>, with the arguments of the format in the order the source
  passes them.
\<close>

datatype error =
    errors_New string
  | Errorf_unexpected_write bytes bytes
  | Errorf_unexpected_read_buffer_length nat nat

text \<open>\<^verbatim>\<open>make([]byte, n)\<close>: n zero bytes.\<close>

definition make_bytes :: "nat \<Rightarrow> bytes" where
  "make_bytes n = replicate n 0"

text \<open>
  \<^verbatim>\<open>copy(dst, src)\<close> copies \<open>min (len dst) (len src)\<close> elements to the front of
  \<open>dst\<close>; the result is the new contents of \<open>dst\<close>.
\<close>

definition copy_bytes :: "bytes \<Rightarrow> bytes \<Rightarrow> bytes" where
  "copy_bytes dst src =
     (let n = min (length dst) (length src) in take n src @ drop n dst)"

text \<open>\<^verbatim>\<open>bytes.Equal(a, b)\<close>: same length and same bytes.\<close>

definition bytes_Equal :: "bytes \<Rightarrow> bytes \<Rightarrow> bool" where
  "bytes_Equal a b = (a = b)"

subsection \<open>The caller's memory\<close>

text \<open>
  The memory the caller's slices point into maps addresses to bytes. A slice is a
  window on it: where it starts and how long it is. \<open>load\<close> reads the contents of a
  window; \<open>copy_mem m dst src\<close> is \<^verbatim>\<open>copy(dst, src)\<close> for a \<open>dst\<close> in the caller's
  memory and gives the memory afterwards. \<open>separate\<close> says that two windows share no
  address.
\<close>

type_synonym mem = "nat \<Rightarrow> byte"

datatype slice = Slice (slice_off: nat) (slice_len: nat)

definition load :: "mem \<Rightarrow> slice \<Rightarrow> bytes" where
  "load m s = map m [slice_off s ..< slice_off s + slice_len s]"

definition copy_mem :: "mem \<Rightarrow> slice \<Rightarrow> bytes \<Rightarrow> mem" where
  "copy_mem m dst src =
     (\<lambda>i. if slice_off dst \<le> i \<and> i < slice_off dst + min (slice_len dst) (length src)
          then src ! (i - slice_off dst) else m i)"

definition separate :: "slice \<Rightarrow> slice \<Rightarrow> bool" where
  "separate a b =
     (slice_off a + slice_len a \<le> slice_off b \<or> slice_off b + slice_len b \<le> slice_off a)"

text \<open>A memory that holds the given bytes from address 0 on.\<close>

definition mem_of :: "bytes \<Rightarrow> mem" where
  "mem_of bs = (\<lambda>i. if i < length bs then bs ! i else 0)"

subsection \<open>RecordRaw\<close>

text \<open>
  \<^verbatim>\<open>W io.Writer\<close> is any writer: its \<^verbatim>\<open>Write\<close> takes the writer's state and
  the bytes and returns the count, the error and the new state.
\<close>

record 's Writer =
  Writer_Write :: "'s \<Rightarrow> bytes \<Rightarrow> int \<times> error option \<times> 's"
  Writer_state :: 's

record 's RecordRaw =
  W :: "'s Writer"

definition RecordRaw_String :: "'s RecordRaw \<Rightarrow> string" where
  "RecordRaw_String r = ''recordraw''"

definition RecordRaw_Write :: "'s RecordRaw \<Rightarrow> bytes \<Rightarrow> int \<times> error option \<times> 's RecordRaw" where
  "RecordRaw_Write r b =
     (case Writer_Write (W r) (Writer_state (W r)) b of
        (n, err, s') \<Rightarrow> (n, err, r\<lparr>W := (W r)\<lparr>Writer_state := s'\<rparr>\<rparr>))"

definition RecordRaw_Tx :: "'s RecordRaw \<Rightarrow> bytes \<Rightarrow> bytes \<Rightarrow> error option \<times> 's RecordRaw" where
  "RecordRaw_Tx r w read =
     (if length read \<noteq> 0 then (Some (errors_New ''not implemented''), r)
      else (case RecordRaw_Write r w of (_, err, r') \<Rightarrow> (err, r')))"

subsection \<open>IO and Record\<close>

record IO =
  Write :: bytes
  Read :: bytes

text \<open>
  \<^verbatim>\<open>Conn conn.Conn\<close> is any connection, or nil. Its \<^verbatim>\<open>Tx\<close> takes the
  connection's state and the contents of the write and of the read slice at entry, and
  returns the error, the new state and the bytes it puts into the read buffer. It sees
  the read buffer as a slice of fixed length, so what it returns reaches the buffer
  through \<^verbatim>\<open>copy\<close>. It writes through the read slice only, as \<^verbatim>\<open>Playback.Tx\<close>
  does; when the write slice is a window on the same addresses, its contents change
  with them.
\<close>

record 'c Conn =
  Conn_Tx :: "'c \<Rightarrow> bytes \<Rightarrow> bytes \<Rightarrow> error option \<times> 'c \<times> bytes"
  Conn_state :: 'c

record 'c Record =
  Record_Conn :: "'c Conn option"
  Record_Ops :: "IO list"

definition Record_String :: "'c Record \<Rightarrow> string" where
  "Record_String r = ''record''"

text \<open>
  \<^verbatim>\<open>Record.Tx\<close> on the caller's memory \<open>m\<close>, with \<open>w\<close> and \<open>read\<close> the two
  slices. The first \<open>case\<close> is the source's \<^verbatim>\<open>if r.Conn == nil\<close> with its two early
  returns, collected as an error; the second is the rest of the body, reached when
  neither returned. The two \<^verbatim>\<open>copy\<close> calls of the source read the memory as the
  delegated \<^verbatim>\<open>Tx\<close> left it.
\<close>

definition Record_Tx_mem :: "'c Record \<Rightarrow> mem \<Rightarrow> slice \<Rightarrow> slice \<Rightarrow> error option \<times> 'c Record \<times> mem" where
  "Record_Tx_mem r m w read =
     (case (case Record_Conn r of
              None \<Rightarrow>
                (if slice_len read \<noteq> 0
                 then (Some (errors_New ''read unsupported when no bus is connected''), r, m)
                 else (None, r, m))
            | Some c \<Rightarrow>
                (case Conn_Tx c (Conn_state c) (load m w) (load m read) of
                   (err, s', resp) \<Rightarrow>
                     (err, r\<lparr>Record_Conn := Some (c\<lparr>Conn_state := s'\<rparr>)\<rparr>, copy_mem m read resp)))
      of
        (Some err, r1, m1) \<Rightarrow> (Some err, r1, m1)
      | (None, r1, m1) \<Rightarrow>
          (let io0 = \<lparr>Write = make_bytes (slice_len w), Read = []\<rparr>;
               io1 = (if slice_len read \<noteq> 0 then io0\<lparr>Read := make_bytes (slice_len read)\<rparr> else io0);
               io2 = io1\<lparr>Write := copy_bytes (Write io1) (load m1 w)\<rparr>;
               io3 = io2\<lparr>Read := copy_bytes (Read io2) (load m1 read)\<rparr>
           in (None, r1\<lparr>Record_Ops := Record_Ops r1 @ [io3]\<rparr>, m1)))"

text \<open>
  \<^verbatim>\<open>Record.Tx\<close> on two buffers that share no memory, given by their contents: the
  write bytes lie at address 0 and the read buffer right behind them. The result is the
  error, the Record and the contents of the read buffer after the call.
\<close>

definition Record_Tx :: "'c Record \<Rightarrow> bytes \<Rightarrow> bytes \<Rightarrow> error option \<times> 'c Record \<times> bytes" where
  "Record_Tx r w read =
     (case Record_Tx_mem r (mem_of (w @ read))
             (Slice 0 (length w)) (Slice (length w) (length read)) of
        (err, r', m') \<Rightarrow> (err, r', load m' (Slice (length w) (length read))))"

definition Record_Write :: "'c Record \<Rightarrow> bytes \<Rightarrow> int \<times> error option \<times> 'c Record" where
  "Record_Write r d =
     (case Record_Tx r d [] of
        (Some err, r', _) \<Rightarrow> (0, Some err, r')
      | (None, r', _) \<Rightarrow> (int (length d), None, r'))"

subsection \<open>Playback\<close>

record Playback =
  Playback_Ops :: "IO list"

definition Playback_String :: "Playback \<Rightarrow> string" where
  "Playback_String p = ''playback''"

definition Playback_Tx :: "Playback \<Rightarrow> bytes \<Rightarrow> bytes \<Rightarrow> error option \<times> Playback \<times> bytes" where
  "Playback_Tx p w r =
     (case Playback_Ops p of
        [] \<Rightarrow> (Some (errors_New ''unexpected Tx()''), p, r)
      | op0 # rest \<Rightarrow>
          (if \<not> bytes_Equal (Write op0) w
           then (Some (Errorf_unexpected_write w (Write op0)), p, r)
           else if length (Read op0) \<noteq> length r
           then (Some (Errorf_unexpected_read_buffer_length (length r) (length (Read op0))), p, r)
           else (None, p\<lparr>Playback_Ops := rest\<rparr>, copy_bytes r (Read op0))))"

definition Playback_Write :: "Playback \<Rightarrow> bytes \<Rightarrow> int \<times> error option \<times> Playback" where
  "Playback_Write p d =
     (case Playback_Tx p d [] of
        (Some err, p', _) \<Rightarrow> (0, Some err, p')
      | (None, p', _) \<Rightarrow> (int (length d), None, p'))"

text \<open>
  A Playback is itself a \<^verbatim>\<open>conn.Conn\<close> (the source's last three lines assert it),
  so it can stand behind a Record.
\<close>

definition Playback_as_Conn :: "Playback \<Rightarrow> Playback Conn" where
  "Playback_as_Conn p = \<lparr>Conn_Tx = Playback_Tx, Conn_state = p\<rparr>"

subsection \<open>Sequences of calls\<close>

text \<open>
  A driver issues calls one after the other on the same instance. Each call is a pair
  of the write bytes and the read buffer handed in; the result lists, per call, the
  error and the read buffer after the call, and gives the instance at the end.
\<close>

fun Record_calls :: "'c Record \<Rightarrow> (bytes \<times> bytes) list \<Rightarrow> (error option \<times> bytes) list \<times> 'c Record" where
  "Record_calls r [] = ([], r)"
| "Record_calls r ((w, read) # cs) =
     (case Record_Tx r w read of
        (err, r', read') \<Rightarrow>
          (case Record_calls r' cs of (outs, r'') \<Rightarrow> ((err, read') # outs, r'')))"

fun Playback_calls :: "Playback \<Rightarrow> (bytes \<times> bytes) list \<Rightarrow> (error option \<times> bytes) list \<times> Playback" where
  "Playback_calls p [] = ([], p)"
| "Playback_calls p ((w, r) # cs) =
     (case Playback_Tx p w r of
        (err, p', r') \<Rightarrow>
          (case Playback_calls p' cs of (outs, p'') \<Rightarrow> ((err, r') # outs, p'')))"

text \<open>The call that a transaction of a log stands for.\<close>

definition call_of :: "IO \<Rightarrow> bytes \<times> bytes" where
  "call_of t = (Write t, Read t)"

subsection \<open>A writer for examples\<close>

text \<open>
  An in-memory writer in the manner of \<^verbatim>\<open>bytes.Buffer\<close>: it appends what it is
  given and reports the whole length written.
\<close>

definition Buffer_Write :: "bytes \<Rightarrow> bytes \<Rightarrow> int \<times> error option \<times> bytes" where
  "Buffer_Write buf b = (int (length b), None, buf @ b)"

definition Buffer_Writer :: "bytes \<Rightarrow> bytes Writer" where
  "Buffer_Writer buf = \<lparr>Writer_Write = Buffer_Write, Writer_state = buf\<rparr>"

text \<open>A short run of calls for examples; the second asks for one byte back.\<close>

definition example_calls :: "(bytes \<times> bytes) list" where
  "example_calls = [([0x01], []), ([0x02], [0x00]), ([0x03], [])]"

section \<open>Properties\<close>

subsection \<open>The built-ins\<close>

lemma length_copy_bytes: "length (copy_bytes dst src) = length dst"
  by (simp add: copy_bytes_def Let_def min_def)

lemma copy_bytes_same_length: "length src = length dst \<Longrightarrow> copy_bytes dst src = src"
  by (simp add: copy_bytes_def)

lemma copy_bytes_make: "length src = n \<Longrightarrow> copy_bytes (make_bytes n) src = src"
  by (simp add: copy_bytes_same_length make_bytes_def)

lemma copy_bytes_Nil: "copy_bytes [] src = []"
  by (simp add: copy_bytes_def)

subsection \<open>The caller's memory\<close>

lemma length_load: "length (load m s) = slice_len s"
  by (simp add: load_def)

lemma nth_load: "i < slice_len s \<Longrightarrow> load m s ! i = m (slice_off s + i)"
  by (simp add: load_def)

lemma load_empty: "slice_len s = 0 \<Longrightarrow> load m s = []"
  by (simp add: load_def)

text \<open>\<open>copy_mem\<close> is \<open>copy_bytes\<close> on the window written to.\<close>

lemma load_copy_mem_same: "load (copy_mem m s bs) s = copy_bytes (load m s) bs"
proof (rule nth_equalityI)
  show "length (load (copy_mem m s bs) s) = length (copy_bytes (load m s) bs)"
    by (simp add: length_load length_copy_bytes)
next
  fix i
  assume "i < length (load (copy_mem m s bs) s)"
  then have i: "i < slice_len s"
    by (simp add: length_load)
  show "load (copy_mem m s bs) s ! i = copy_bytes (load m s) bs ! i"
  proof (cases "i < length bs")
    case True
    then show ?thesis
      using i by (simp add: nth_load copy_mem_def copy_bytes_def Let_def length_load nth_append)
  next
    case False
    then show ?thesis
      using i by (simp add: nth_load copy_mem_def copy_bytes_def Let_def length_load nth_append min_def)
  qed
qed

text \<open>It leaves every window alone that shares no address with the one written to.\<close>

lemma load_copy_mem_separate: "separate t s \<Longrightarrow> load (copy_mem m s bs) t = load m t"
  by (auto simp: load_def copy_mem_def separate_def)

lemma load_mem_of_front: "load (mem_of (w @ read)) (Slice 0 (length w)) = w"
  by (rule nth_equalityI) (simp_all add: length_load nth_load mem_of_def nth_append)

lemma load_mem_of_back: "load (mem_of (w @ read)) (Slice (length w) (length read)) = read"
  by (rule nth_equalityI) (simp_all add: length_load nth_load mem_of_def nth_append)

lemma separate_front_back: "separate (Slice 0 n) (Slice n k)"
  by (simp add: separate_def)

subsection \<open>One call\<close>

text \<open>What \<open>Record_Tx_mem\<close> does without and with an underlying connection.\<close>

lemma Record_Tx_mem_no_Conn:
  "Record_Conn r = None \<Longrightarrow>
   Record_Tx_mem r m w read =
     (if slice_len read \<noteq> 0
      then (Some (errors_New ''read unsupported when no bus is connected''), r, m)
      else (None, r\<lparr>Record_Ops := Record_Ops r @ [\<lparr>Write = load m w, Read = []\<rparr>]\<rparr>, m))"
  by (simp add: Record_Tx_mem_def Let_def copy_bytes_make copy_bytes_Nil length_load)

lemma Record_Tx_mem_with_Conn:
  assumes "Record_Conn r = Some c"
      and "Conn_Tx c (Conn_state c) (load m w) (load m read) = (err, s', resp)"
  shows "Record_Tx_mem r m w read =
     (case err of
        Some e \<Rightarrow> (Some e, r\<lparr>Record_Conn := Some (c\<lparr>Conn_state := s'\<rparr>)\<rparr>, copy_mem m read resp)
      | None \<Rightarrow>
          (None,
           r\<lparr>Record_Conn := Some (c\<lparr>Conn_state := s'\<rparr>),
              Record_Ops := Record_Ops r @
                [\<lparr>Write = load (copy_mem m read resp) w,
                  Read = load (copy_mem m read resp) read\<rparr>]\<rparr>,
           copy_mem m read resp))"
proof (cases err)
  case (Some e)
  then show ?thesis
    using assms by (simp add: Record_Tx_mem_def)
next
  case None
  show ?thesis
  proof (cases "slice_len read = 0")
    case True
    then show ?thesis
      using assms None
      by (simp add: Record_Tx_mem_def Let_def copy_bytes_make copy_bytes_Nil length_load load_empty)
  next
    case False
    then show ?thesis
      using assms None
      by (simp add: Record_Tx_mem_def Let_def copy_bytes_make length_load)
  qed
qed

text \<open>What \<open>Record_Tx\<close> does without and with an underlying connection.\<close>

lemma Record_Tx_no_Conn:
  "Record_Conn r = None \<Longrightarrow>
   Record_Tx r w read =
     (if read \<noteq> [] then (Some (errors_New ''read unsupported when no bus is connected''), r, read)
      else (None, r\<lparr>Record_Ops := Record_Ops r @ [\<lparr>Write = w, Read = []\<rparr>]\<rparr>, read))"
  by (simp add: Record_Tx_def Record_Tx_mem_no_Conn load_mem_of_front load_mem_of_back
      load_mem_of_front [of w "[]", simplified] load_empty)

lemma Record_Tx_with_Conn:
  assumes "Record_Conn r = Some c"
      and "Conn_Tx c (Conn_state c) w read = (err, s', resp)"
  shows "Record_Tx r w read =
     (case err of
        Some e \<Rightarrow> (Some e, r\<lparr>Record_Conn := Some (c\<lparr>Conn_state := s'\<rparr>)\<rparr>, copy_bytes read resp)
      | None \<Rightarrow>
          (None,
           r\<lparr>Record_Conn := Some (c\<lparr>Conn_state := s'\<rparr>),
              Record_Ops := Record_Ops r @ [\<lparr>Write = w, Read = copy_bytes read resp\<rparr>]\<rparr>,
           copy_bytes read resp))"
proof -
  let ?m = "mem_of (w @ read)"
  let ?w = "Slice 0 (length w)"
  let ?read = "Slice (length w) (length read)"
  have tx: "Conn_Tx c (Conn_state c) (load ?m ?w) (load ?m ?read) = (err, s', resp)"
    using assms(2) by (simp add: load_mem_of_front load_mem_of_back)
  have w: "load (copy_mem ?m ?read resp) ?w = w"
    by (simp add: load_copy_mem_separate separate_front_back load_mem_of_front)
  have rd: "load (copy_mem ?m ?read resp) ?read = copy_bytes read resp"
    by (simp add: load_copy_mem_same load_mem_of_back)
  show ?thesis
    using Record_Tx_mem_with_Conn [OF assms(1) tx] w rd
    by (cases err) (simp_all add: Record_Tx_def)
qed

lemma Record_Tx_cases:
  "(\<exists>e r' read'. Record_Tx r w read = (Some e, r', read') \<and> Record_Ops r' = Record_Ops r)
   \<or> (\<exists>r' read'. Record_Tx r w read = (None, r', read')
        \<and> Record_Ops r' = Record_Ops r @ [\<lparr>Write = w, Read = read'\<rparr>]
        \<and> length read' = length read
        \<and> (Record_Conn r = None \<longrightarrow> read' = read \<and> read = []))"
proof (cases "Record_Conn r")
  case None
  then show ?thesis
    by (simp add: Record_Tx_no_Conn)
next
  case (Some c)
  obtain err s' resp where tx: "Conn_Tx c (Conn_state c) w read = (err, s', resp)"
    by (cases "Conn_Tx c (Conn_state c) w read")
  show ?thesis
    using Record_Tx_with_Conn [OF Some tx] Some
    by (cases err) (simp_all add: length_copy_bytes)
qed

text \<open>
  The log after a call on the caller's memory: an error leaves it alone, a success
  appends the contents of the two windows as the call leaves them. The write window
  still holds the bytes passed in when it shares no address with the read window.
\<close>

lemma Record_Tx_mem_cases:
  "(\<exists>e r' m'. Record_Tx_mem r m w read = (Some e, r', m') \<and> Record_Ops r' = Record_Ops r)
   \<or> (\<exists>r' m'. Record_Tx_mem r m w read = (None, r', m')
        \<and> Record_Ops r' = Record_Ops r @ [\<lparr>Write = load m' w, Read = load m' read\<rparr>]
        \<and> (separate w read \<longrightarrow> load m' w = load m w))"
proof (cases "Record_Conn r")
  case None
  then show ?thesis
    by (simp add: Record_Tx_mem_no_Conn load_empty)
next
  case (Some c)
  obtain err s' resp where tx: "Conn_Tx c (Conn_state c) (load m w) (load m read) = (err, s', resp)"
    by (cases "Conn_Tx c (Conn_state c) (load m w) (load m read)")
  show ?thesis
    using Record_Tx_mem_with_Conn [OF Some tx]
    by (cases err) (simp_all add: load_copy_mem_separate)
qed

lemma Record_Tx_mem_success:
  assumes "Record_Tx_mem r m w read = (None, r', m')"
  shows "Record_Ops r' = Record_Ops r @ [\<lparr>Write = load m' w, Read = load m' read\<rparr>]
         \<and> (separate w read \<longrightarrow> load m' w = load m w)"
  using assms Record_Tx_mem_cases [of r m w read] by auto

text \<open>
  On two windows that share no address, wherever they lie, the call is \<open>Record_Tx\<close> on
  their contents.
\<close>

lemma load_eq_Nil: "load m s = [] \<longleftrightarrow> slice_len s = 0"
  using length_load [of m s] by (metis length_0_conv)

lemma Record_Tx_mem_separate:
  assumes "separate w read"
  shows "(case Record_Tx_mem r m w read of (err, r', m') \<Rightarrow> (err, r', load m' read)) =
         Record_Tx r (load m w) (load m read)"
proof (cases "Record_Conn r")
  case None
  then show ?thesis
    by (simp add: Record_Tx_mem_no_Conn Record_Tx_no_Conn load_eq_Nil)
next
  case (Some c)
  obtain err s' resp where tx: "Conn_Tx c (Conn_state c) (load m w) (load m read) = (err, s', resp)"
    by (cases "Conn_Tx c (Conn_state c) (load m w) (load m read)")
  show ?thesis
    using Record_Tx_mem_with_Conn [OF Some tx] Record_Tx_with_Conn [OF Some tx] assms
    by (cases err) (simp_all add: load_copy_mem_separate load_copy_mem_same)
qed

lemma Record_Tx_separate_success:
  assumes "Record_Tx r w read = (None, r', read')"
  shows "Record_Ops r' = Record_Ops r @ [\<lparr>Write = w, Read = read'\<rparr>]
         \<and> length read' = length read
         \<and> (read = [] \<longrightarrow> Read (last (Record_Ops r')) = [])
         \<and> (Record_Conn r = None \<longrightarrow> read' = read)"
  using assms Record_Tx_cases [of r w read] by auto

text \<open>What \<open>Playback_Tx\<close> does on an empty and on a non-empty log.\<close>

lemma Playback_Tx_Nil:
  "Playback_Ops p = [] \<Longrightarrow> Playback_Tx p w r = (Some (errors_New ''unexpected Tx()''), p, r)"
  by (simp add: Playback_Tx_def)

lemma Playback_Tx_Cons:
  "Playback_Ops p = op0 # rest \<Longrightarrow>
   Playback_Tx p w r =
     (if Write op0 \<noteq> w then (Some (Errorf_unexpected_write w (Write op0)), p, r)
      else if length (Read op0) \<noteq> length r
      then (Some (Errorf_unexpected_read_buffer_length (length r) (length (Read op0))), p, r)
      else (None, p\<lparr>Playback_Ops := rest\<rparr>, Read op0))"
  by (simp add: Playback_Tx_def bytes_Equal_def copy_bytes_same_length)

lemma Playback_Tx_cases:
  "Playback_Tx p w r = (None, p\<lparr>Playback_Ops := tl (Playback_Ops p)\<rparr>, Read (hd (Playback_Ops p)))
     \<and> Playback_Ops p \<noteq> []
   \<or> (\<exists>err. Playback_Tx p w r = (Some err, p, r))"
proof (cases "Playback_Ops p")
  case Nil
  then show ?thesis by (simp add: Playback_Tx_Nil)
next
  case (Cons op0 rest)
  then show ?thesis by (simp add: Playback_Tx_Cons)
qed

text \<open>The log after one call.\<close>

lemma Record_Tx_Ops:
  "Record_Ops (fst (snd (Record_Tx r w read))) = Record_Ops r
   \<or> (\<exists>io. Record_Ops (fst (snd (Record_Tx r w read))) = Record_Ops r @ [io])"
  using Record_Tx_cases [of r w read] by auto

lemma Record_Write_Ops:
  "Record_Ops (snd (snd (Record_Write r d))) = Record_Ops (fst (snd (Record_Tx r d [])))"
  by (simp add: Record_Write_def split: prod.splits option.splits)

lemma Playback_Tx_Ops:
  "Playback_Ops (fst (snd (Playback_Tx p w r))) = Playback_Ops p
   \<or> (\<exists>io. Playback_Ops p = io # Playback_Ops (fst (snd (Playback_Tx p w r))))"
proof (cases "Playback_Ops p")
  case Nil
  then show ?thesis by (simp add: Playback_Tx_Nil)
next
  case (Cons op0 rest)
  then show ?thesis by (simp add: Playback_Tx_Cons)
qed

lemma Playback_Write_Ops:
  "Playback_Ops (snd (snd (Playback_Write p d))) = Playback_Ops (fst (snd (Playback_Tx p d [])))"
  by (simp add: Playback_Write_def split: prod.splits option.splits)

subsection \<open>Runs of calls\<close>

lemma Record_calls_no_Conn:
  "Record_Conn r = None \<Longrightarrow> \<forall>t \<in> set Ts. Read t = [] \<Longrightarrow>
   Record_calls r (map call_of Ts) =
     (map (\<lambda>t. (None, Read t)) Ts, r\<lparr>Record_Ops := Record_Ops r @ Ts\<rparr>)"
proof (induction Ts arbitrary: r)
  case Nil
  show ?case by simp
next
  case (Cons t Ts)
  let ?r' = "r\<lparr>Record_Ops := Record_Ops r @ [t]\<rparr>"
  have rd: "Read t = []" and tl: "\<forall>t \<in> set Ts. Read t = []"
    using Cons.prems by simp_all
  have t: "\<lparr>Write = Write t, Read = []\<rparr> = t"
    using rd by simp
  have step: "Record_Tx r (Write t) [] = (None, ?r', [])"
    using Cons.prems(1) by (simp add: Record_Tx_no_Conn t)
  have "Record_Conn ?r' = None"
    using Cons.prems(1) by simp
  from Cons.IH [OF this tl]
  have "Record_calls ?r' (map call_of Ts) =
      (map (\<lambda>t. (None, Read t)) Ts, r\<lparr>Record_Ops := Record_Ops r @ t # Ts\<rparr>)"
    by simp
  moreover have "map call_of (t # Ts) = (Write t, []) # map call_of Ts"
    using rd by (simp add: call_of_def)
  ultimately show ?case
    using rd step by simp
qed

lemma Playback_calls_replay:
  "Playback_calls \<lparr>Playback_Ops = Ts @ L\<rparr> (map call_of Ts) =
     (map (\<lambda>t. (None, Read t)) Ts, \<lparr>Playback_Ops = L\<rparr>)"
proof (induction Ts)
  case Nil
  show ?case by simp
next
  case (Cons t Ts)
  have step: "Playback_Tx \<lparr>Playback_Ops = (t # Ts) @ L\<rparr> (Write t) (Read t) =
      (None, \<lparr>Playback_Ops = Ts @ L\<rparr>, Read t)"
    by (simp add: Playback_Tx_Cons [where ?op0.0 = t and rest = "Ts @ L"])
  have "map call_of (t # Ts) = (Write t, Read t) # map call_of Ts"
    by (simp add: call_of_def)
  then show ?case
    using step Cons.IH by simp
qed

lemma Playback_calls_exhausted:
  "Playback_Ops p = [] \<Longrightarrow>
   Playback_calls p cs = (map (\<lambda>c. (Some (errors_New ''unexpected Tx()''), snd c)) cs, p)"
proof (induction cs)
  case Nil
  show ?case by simp
next
  case (Cons c cs)
  obtain w r where c: "c = (w, r)"
    by (cases c)
  show ?case
    using Cons by (simp add: c Playback_Tx_Nil)
qed

lemma Record_calls_Ops:
  "\<exists>ios. Record_Ops (snd (Record_calls r cs)) = Record_Ops r @ ios"
proof (induction cs arbitrary: r)
  case Nil
  show ?case by simp
next
  case (Cons c cs)
  obtain w read where c: "c = (w, read)"
    by (cases c)
  obtain err r' read' where tx: "Record_Tx r w read = (err, r', read')"
    by (cases "Record_Tx r w read")
  obtain ios where ios: "Record_Ops (snd (Record_calls r' cs)) = Record_Ops r' @ ios"
    using Cons.IH by blast
  have run: "snd (Record_calls r (c # cs)) = snd (Record_calls r' cs)"
    by (simp add: c tx split: prod.splits)
  from Record_Tx_Ops [of r w read]
  have "Record_Ops r' = Record_Ops r \<or> (\<exists>io. Record_Ops r' = Record_Ops r @ [io])"
    by (simp add: tx)
  then show ?case
  proof
    assume "Record_Ops r' = Record_Ops r"
    then show ?thesis
      using run ios by simp
  next
    assume "\<exists>io. Record_Ops r' = Record_Ops r @ [io]"
    then obtain io where "Record_Ops r' = Record_Ops r @ [io]" ..
    then have "Record_Ops (snd (Record_calls r (c # cs))) = Record_Ops r @ (io # ios)"
      using run ios by simp
    then show ?thesis ..
  qed
qed

lemma Playback_calls_Ops:
  "\<exists>ios. Playback_Ops p = ios @ Playback_Ops (snd (Playback_calls p cs))"
proof (induction cs arbitrary: p)
  case Nil
  show ?case by simp
next
  case (Cons c cs)
  obtain w r where c: "c = (w, r)"
    by (cases c)
  obtain err p' r' where tx: "Playback_Tx p w r = (err, p', r')"
    by (cases "Playback_Tx p w r")
  obtain ios where ios: "Playback_Ops p' = ios @ Playback_Ops (snd (Playback_calls p' cs))"
    using Cons.IH by blast
  have run: "snd (Playback_calls p (c # cs)) = snd (Playback_calls p' cs)"
    by (simp add: c tx split: prod.splits)
  from Playback_Tx_Ops [of p w r]
  have "Playback_Ops p' = Playback_Ops p \<or> (\<exists>io. Playback_Ops p = io # Playback_Ops p')"
    by (simp add: tx)
  then show ?case
  proof
    assume "Playback_Ops p' = Playback_Ops p"
    then have "Playback_Ops p = ios @ Playback_Ops (snd (Playback_calls p (c # cs)))"
      using run ios by simp
    then show ?thesis ..
  next
    assume "\<exists>io. Playback_Ops p = io # Playback_Ops p'"
    then obtain io where "Playback_Ops p = io # Playback_Ops p'" ..
    then have "Playback_Ops p = (io # ios) @ Playback_Ops (snd (Playback_calls p (c # cs)))"
      using run ios by simp
    then show ?thesis ..
  qed
qed

subsection \<open>Recording and replaying\<close>

text \<open>
  Claim C1. Take any transactions \<open>Ts\<close> whose read bytes are all empty and issue the
  calls they stand for, in order, on a fresh Record with no underlying connection
  (\<open>Record_Conn = None\<close>, empty log). No call returns an error and the log at the end
  is \<open>Ts\<close> itself, byte for byte. A Playback seeded with that log and given the same
  calls returns no error on any of them, hands back as read output of each call the
  read bytes that were recorded for it, and ends with an empty log.
\<close>

theorem Record_Playback_roundtrip:
  assumes "\<forall>t \<in> set Ts. Read t = []"
  shows "Record_calls \<lparr>Record_Conn = None, Record_Ops = []\<rparr> (map call_of Ts) =
           (map (\<lambda>t. (None, Read t)) Ts, \<lparr>Record_Conn = None, Record_Ops = Ts\<rparr>)
         \<and> Playback_calls \<lparr>Playback_Ops = Ts\<rparr> (map call_of Ts) =
           (map (\<lambda>t. (None, Read t)) Ts, \<lparr>Playback_Ops = []\<rparr>)"
proof
  have "Record_Conn \<lparr>Record_Conn = None, Record_Ops = []\<rparr> = None"
    by simp
  from Record_calls_no_Conn [OF this assms]
  show "Record_calls \<lparr>Record_Conn = None, Record_Ops = []\<rparr> (map call_of Ts) =
      (map (\<lambda>t. (None, Read t)) Ts, \<lparr>Record_Conn = None, Record_Ops = Ts\<rparr>)"
    by simp
  show "Playback_calls \<lparr>Playback_Ops = Ts\<rparr> (map call_of Ts) =
      (map (\<lambda>t. (None, Read t)) Ts, \<lparr>Playback_Ops = []\<rparr>)"
    using Playback_calls_replay [of Ts "[]"] by simp
qed

theorem Record_Playback_roundtrip_witness:
  "Record_calls \<lparr>Record_Conn = None, Record_Ops = []\<rparr> [([1, 2], []), ([3], [])] =
     ([(None, []), (None, [])],
      \<lparr>Record_Conn = None, Record_Ops = [\<lparr>Write = [1, 2], Read = []\<rparr>, \<lparr>Write = [3], Read = []\<rparr>]\<rparr>)
   \<and> Playback_calls \<lparr>Playback_Ops = [\<lparr>Write = [1, 2], Read = []\<rparr>, \<lparr>Write = [3], Read = []\<rparr>]\<rparr>
        [([1, 2], []), ([3], [])] =
     ([(None, []), (None, [])], \<lparr>Playback_Ops = []\<rparr>)"
  using Record_Playback_roundtrip [of "[\<lparr>Write = [1, 2], Read = []\<rparr>, \<lparr>Write = [3], Read = []\<rparr>]"]
  by (simp add: call_of_def)

text \<open>
  Claim C2. When the log of a Playback starts with a transaction \<open>op0\<close>, the write
  bytes of the call equal \<open>Write op0\<close> and the read buffer of the call is as long as
  \<open>Read op0\<close>, then \<open>Playback_Tx\<close> returns no error, the read buffer holds
  \<open>Read op0\<close> afterwards, and the log has lost exactly its head: it is the former
  tail, one shorter than before.
\<close>

theorem Playback_Tx_match:
  assumes "Playback_Ops p = op0 # rest"
      and "w = Write op0"
      and "length r = length (Read op0)"
  shows "Playback_Tx p w r = (None, p\<lparr>Playback_Ops := rest\<rparr>, Read op0)
         \<and> Suc (length (Playback_Ops (fst (snd (Playback_Tx p w r))))) = length (Playback_Ops p)"
  using assms by (simp add: Playback_Tx_Cons)

theorem Playback_Tx_match_witness:
  "Playback_Tx \<lparr>Playback_Ops = [\<lparr>Write = [0x01], Read = [0xAA]\<rparr>]\<rparr> [0x01] [0x00] =
     (None, \<lparr>Playback_Ops = []\<rparr>, [0xAA])"
  using Playback_Tx_match [of "\<lparr>Playback_Ops = [\<lparr>Write = [0x01], Read = [0xAA]\<rparr>]\<rparr>"
      "\<lparr>Write = [0x01], Read = [0xAA]\<rparr>" "[]" "[0x01]" "[0x00]"]
  by simp

text \<open>
  Claim C3. On a Playback whose log is empty, every \<open>Playback_Tx\<close> returns the error
  \<^verbatim>\<open>unexpected Tx()\<close> and leaves the Playback as it was, so the log is still empty;
  \<open>Playback_Write\<close> fails in the same way with count 0. The state is terminal: however
  many calls follow, each of them fails with that error and the Playback at the end is
  the one at the start.
\<close>

theorem Playback_exhausted_terminal:
  assumes "Playback_Ops p = []"
  shows "Playback_Tx p w r = (Some (errors_New ''unexpected Tx()''), p, r)
         \<and> Playback_Ops (fst (snd (Playback_Tx p w r))) = []
         \<and> Playback_Write p w = (0, Some (errors_New ''unexpected Tx()''), p)
         \<and> Playback_calls p cs = (map (\<lambda>c. (Some (errors_New ''unexpected Tx()''), snd c)) cs, p)"
  using assms by (simp add: Playback_Tx_Nil Playback_Write_def Playback_calls_exhausted)

theorem Playback_exhausted_terminal_witness:
  "Playback_Tx \<lparr>Playback_Ops = []\<rparr> [0x01] [0x00] =
     (Some (errors_New ''unexpected Tx()''), \<lparr>Playback_Ops = []\<rparr>, [0x00])
   \<and> Playback_calls \<lparr>Playback_Ops = []\<rparr> [([0x01], [0x00]), ([], [])] =
     ([(Some (errors_New ''unexpected Tx()''), [0x00]), (Some (errors_New ''unexpected Tx()''), [])],
      \<lparr>Playback_Ops = []\<rparr>)"
proof -
  have "Playback_Ops \<lparr>Playback_Ops = []\<rparr> = []"
    by simp
  from Playback_exhausted_terminal [OF this, of "[0x01]" "[0x00]" "[([0x01], [0x00]), ([], [])]"]
  show ?thesis by (simp del: Playback_calls.simps)
qed

text \<open>
  Claim C4. A \<open>Playback_Tx\<close> that returns an error leaves the Playback, and so its
  log, exactly as it was. The two mismatches are such failures: on a log
  \<open>op0 # rest\<close>, write bytes other than \<open>Write op0\<close> give the write-mismatch error,
  and matching write bytes with a read buffer of another length than \<open>Read op0\<close> give
  the read-length error; both return the Playback unchanged. The example
  that follows is the log of one transaction with write bytes 01 02, called with
  01 03: it is still of length 1 after the failed call.
\<close>

theorem Playback_Tx_failed_log_unchanged:
  "(fst (Playback_Tx p w r) \<noteq> None \<longrightarrow> fst (snd (Playback_Tx p w r)) = p)
   \<and> (Playback_Ops p = op0 # rest \<and> Write op0 \<noteq> w \<longrightarrow>
        Playback_Tx p w r = (Some (Errorf_unexpected_write w (Write op0)), p, r))
   \<and> (Playback_Ops p = op0 # rest \<and> Write op0 = w \<and> length (Read op0) \<noteq> length r \<longrightarrow>
        Playback_Tx p w r =
          (Some (Errorf_unexpected_read_buffer_length (length r) (length (Read op0))), p, r))"
proof (intro conjI impI)
  assume "fst (Playback_Tx p w r) \<noteq> None"
  then show "fst (snd (Playback_Tx p w r)) = p"
    using Playback_Tx_cases [of p w r] by auto
next
  assume "Playback_Ops p = op0 # rest \<and> Write op0 \<noteq> w"
  then show "Playback_Tx p w r = (Some (Errorf_unexpected_write w (Write op0)), p, r)"
    by (simp add: Playback_Tx_Cons)
next
  assume "Playback_Ops p = op0 # rest \<and> Write op0 = w \<and> length (Read op0) \<noteq> length r"
  then show "Playback_Tx p w r =
      (Some (Errorf_unexpected_read_buffer_length (length r) (length (Read op0))), p, r)"
    by (simp add: Playback_Tx_Cons)
qed

theorem Playback_Tx_failed_log_unchanged_witness:
  "Playback_Tx \<lparr>Playback_Ops = [\<lparr>Write = [0x01, 0x02], Read = []\<rparr>]\<rparr> [0x01, 0x03] [] =
     (Some (Errorf_unexpected_write [0x01, 0x03] [0x01, 0x02]),
      \<lparr>Playback_Ops = [\<lparr>Write = [0x01, 0x02], Read = []\<rparr>]\<rparr>, [])
   \<and> length (Playback_Ops
        (fst (snd (Playback_Tx \<lparr>Playback_Ops = [\<lparr>Write = [0x01, 0x02], Read = []\<rparr>]\<rparr> [0x01, 0x03] [])))) = 1"
proof -
  let ?p = "\<lparr>Playback_Ops = [\<lparr>Write = [0x01, 0x02], Read = []\<rparr>]\<rparr>"
  from Playback_Tx_failed_log_unchanged [of ?p "[0x01, 0x03]" "[]" "\<lparr>Write = [0x01, 0x02], Read = []\<rparr>" "[]"]
  have "Playback_Tx ?p [0x01, 0x03] [] = (Some (Errorf_unexpected_write [0x01, 0x03] [0x01, 0x02]), ?p, [])"
    by simp
  then show ?thesis by simp
qed

text \<open>
  Claim C5. When a Record has an underlying connection and that connection's
  \<open>Tx\<close> returns the error \<open>e\<close>, \<open>Record_Tx\<close> returns \<open>e\<close> itself, not wrapped
  in anything, and the log of the Record after the call is the log before it: nothing
  is appended.
\<close>

theorem Record_Tx_Conn_error:
  assumes "Record_Conn r = Some c"
      and "Conn_Tx c (Conn_state c) w read = (Some e, s', resp)"
  shows "fst (Record_Tx r w read) = Some e
         \<and> Record_Ops (fst (snd (Record_Tx r w read))) = Record_Ops r"
  using Record_Tx_with_Conn [OF assms] by simp

theorem Record_Tx_Conn_error_witness:
  "fst (Record_Tx \<lparr>Record_Conn = Some (Playback_as_Conn \<lparr>Playback_Ops = []\<rparr>), Record_Ops = []\<rparr> [0x01] []) =
     Some (errors_New ''unexpected Tx()'')
   \<and> Record_Ops (fst (snd (Record_Tx
        \<lparr>Record_Conn = Some (Playback_as_Conn \<lparr>Playback_Ops = []\<rparr>), Record_Ops = []\<rparr> [0x01] []))) = []"
proof -
  let ?c = "Playback_as_Conn \<lparr>Playback_Ops = []\<rparr>"
  let ?r = "\<lparr>Record_Conn = Some ?c, Record_Ops = []\<rparr>"
  have c: "Record_Conn ?r = Some ?c"
    by simp
  have "Conn_Tx ?c (Conn_state ?c) [0x01] [] =
      (Some (errors_New ''unexpected Tx()''), \<lparr>Playback_Ops = []\<rparr>, [])"
    by (simp add: Playback_as_Conn_def Playback_Tx_def)
  from Record_Tx_Conn_error [OF c this]
  show ?thesis by simp
qed

text \<open>
  Claim C6. With a non-empty read buffer, \<open>RecordRaw_Tx\<close> fails with
  \<^verbatim>\<open>not implemented\<close> and returns the RecordRaw as it was, writer state included,
  whatever the writer is: nothing reaches the sink. With a non-empty read buffer and
  no underlying connection, \<open>Record_Tx\<close> fails with
  \<^verbatim>\<open>read unsupported when no bus is connected\<close> and returns the Record as it
  was: nothing is appended to the log.
\<close>

theorem unsupported_read:
  assumes "read \<noteq> []"
  shows "RecordRaw_Tx rr w read = (Some (errors_New ''not implemented''), rr)
         \<and> (Record_Conn r = None \<longrightarrow>
              Record_Tx r w read =
                (Some (errors_New ''read unsupported when no bus is connected''), r, read))"
  using assms by (simp add: RecordRaw_Tx_def Record_Tx_no_Conn)

theorem unsupported_read_witness:
  "RecordRaw_Tx \<lparr>W = Buffer_Writer [0x09]\<rparr> [0x01] [0x00] =
     (Some (errors_New ''not implemented''), \<lparr>W = Buffer_Writer [0x09]\<rparr>)
   \<and> Record_Tx \<lparr>Record_Conn = None, Record_Ops = [\<lparr>Write = [0x05], Read = []\<rparr>]\<rparr> [0x01] [0x00] =
     (Some (errors_New ''read unsupported when no bus is connected''),
      \<lparr>Record_Conn = None, Record_Ops = [\<lparr>Write = [0x05], Read = []\<rparr>]\<rparr>, [0x00])"
  using unsupported_read [of "[0x00]" "\<lparr>W = Buffer_Writer [0x09]\<rparr>" "[0x01]"
      "\<lparr>Record_Conn = None, Record_Ops = [\<lparr>Write = [0x05], Read = []\<rparr>]\<rparr>"]
  by simp

text \<open>
  Claim C7. The claim: a successful \<^verbatim>\<open>Record.Tx(w, read)\<close> appends one transaction
  whose write bytes are the bytes of \<open>w\<close> and whose read bytes are those of the read
  buffer. The source delegates to the underlying connection first and copies \<open>w\<close>
  afterwards, so when \<open>w\<close> and \<open>read\<close> are windows on the same memory it logs what
  the connection put there. Here one buffer holding 01 is passed as both slices to a
  Record in front of a Playback that expects the write 01 and answers AA. The buffer
  holds 01 at entry; the call returns no error; the buffer holds AA afterwards; the
  transaction appended has write bytes AA, not the 01 that was written. A Playback
  seeded with the log so recorded refuses the same call, on a buffer holding 01, as an
  unexpected write. The source's comment on \<^verbatim>\<open>Record\<close> says that it records
  everything written to it and that the record can be fed to a Playback. For windows
  that share no address the transaction appended does hold the bytes of \<open>w\<close>:
  \<open>Record_Tx_mem_success\<close>, \<open>Record_Tx_separate_success\<close>.
\<close>

theorem Record_Tx_mem_same_buffer:
  "load (mem_of [0x01]) (Slice 0 1) = [0x01]
   \<and> (case Record_Tx_mem
          \<lparr>Record_Conn = Some (Playback_as_Conn \<lparr>Playback_Ops = [\<lparr>Write = [0x01], Read = [0xAA]\<rparr>]\<rparr>),
            Record_Ops = []\<rparr>
          (mem_of [0x01]) (Slice 0 1) (Slice 0 1) of
        (err, r', m') \<Rightarrow>
          err = None
          \<and> r' = \<lparr>Record_Conn = Some (Playback_as_Conn \<lparr>Playback_Ops = []\<rparr>),
                  Record_Ops = [\<lparr>Write = [0xAA], Read = [0xAA]\<rparr>]\<rparr>
          \<and> load m' (Slice 0 1) = [0xAA])
   \<and> Playback_Tx \<lparr>Playback_Ops = [\<lparr>Write = [0xAA], Read = [0xAA]\<rparr>]\<rparr> [0x01] [0x01] =
       (Some (Errorf_unexpected_write [0x01] [0xAA]),
        \<lparr>Playback_Ops = [\<lparr>Write = [0xAA], Read = [0xAA]\<rparr>]\<rparr>, [0x01])"
proof (intro conjI)
  show "load (mem_of [0x01]) (Slice 0 1) = [0x01]"
    by (simp add: load_def mem_of_def)
  show "case Record_Tx_mem
          \<lparr>Record_Conn = Some (Playback_as_Conn \<lparr>Playback_Ops = [\<lparr>Write = [0x01], Read = [0xAA]\<rparr>]\<rparr>),
            Record_Ops = []\<rparr>
          (mem_of [0x01]) (Slice 0 1) (Slice 0 1) of
        (err, r', m') \<Rightarrow>
          err = None
          \<and> r' = \<lparr>Record_Conn = Some (Playback_as_Conn \<lparr>Playback_Ops = []\<rparr>),
                  Record_Ops = [\<lparr>Write = [0xAA], Read = [0xAA]\<rparr>]\<rparr>
          \<and> load m' (Slice 0 1) = [0xAA]"
    by (simp add: Record_Tx_mem_def Playback_as_Conn_def Playback_Tx_def bytes_Equal_def
        load_def mem_of_def copy_mem_def copy_bytes_def make_bytes_def)
  show "Playback_Tx \<lparr>Playback_Ops = [\<lparr>Write = [0xAA], Read = [0xAA]\<rparr>]\<rparr> [0x01] [0x01] =
       (Some (Errorf_unexpected_write [0x01] [0xAA]),
        \<lparr>Playback_Ops = [\<lparr>Write = [0xAA], Read = [0xAA]\<rparr>]\<rparr>, [0x01])"
    by (simp add: Playback_Tx_def bytes_Equal_def)
qed

text \<open>
  Claim C8. \<open>Record_Write r d\<close> is \<open>Record_Tx r d []\<close> and \<open>Playback_Write p d\<close>
  is \<open>Playback_Tx p d []\<close>: the instance afterwards is the one \<open>Tx\<close> leaves, the
  error is the one \<open>Tx\<close> returns, and the count is the length of \<open>d\<close> when there
  is no error and 0 when there is one.
\<close>

theorem Write_is_Tx_with_empty_read:
  "Record_Write r d =
     (case Record_Tx r d [] of
        (err, r', read') \<Rightarrow> (if err = None then int (length d) else 0, err, r'))
   \<and> Playback_Write p d =
     (case Playback_Tx p d [] of
        (err, p', read') \<Rightarrow> (if err = None then int (length d) else 0, err, p'))"
proof
  obtain err r' read' where tx: "Record_Tx r d [] = (err, r', read')"
    by (cases "Record_Tx r d []")
  show "Record_Write r d =
     (case Record_Tx r d [] of
        (err, r', read') \<Rightarrow> (if err = None then int (length d) else 0, err, r'))"
    by (cases err) (simp_all add: Record_Write_def tx)
  obtain err p' read' where tx: "Playback_Tx p d [] = (err, p', read')"
    by (cases "Playback_Tx p d []")
  show "Playback_Write p d =
     (case Playback_Tx p d [] of
        (err, p', read') \<Rightarrow> (if err = None then int (length d) else 0, err, p'))"
    by (cases err) (simp_all add: Playback_Write_def tx)
qed

theorem Write_is_Tx_with_empty_read_witness:
  "Record_Write \<lparr>Record_Conn = None, Record_Ops = []\<rparr> [0x01, 0x03] =
     (2, None, \<lparr>Record_Conn = None, Record_Ops = [\<lparr>Write = [0x01, 0x03], Read = []\<rparr>]\<rparr>)
   \<and> Playback_Write \<lparr>Playback_Ops = [\<lparr>Write = [0x01, 0x02], Read = []\<rparr>]\<rparr> [0x01, 0x03] =
     (0, Some (Errorf_unexpected_write [0x01, 0x03] [0x01, 0x02]),
      \<lparr>Playback_Ops = [\<lparr>Write = [0x01, 0x02], Read = []\<rparr>]\<rparr>)"
  using Write_is_Tx_with_empty_read [of "\<lparr>Record_Conn = None, Record_Ops = []\<rparr>" "[0x01, 0x03]"
      "\<lparr>Playback_Ops = [\<lparr>Write = [0x01, 0x02], Read = []\<rparr>]\<rparr>"]
  by (simp add: Record_Tx_no_Conn Playback_Tx_def bytes_Equal_def)

text \<open>
  Claim C9. A call of \<open>Record_Tx\<close> or \<open>Record_Write\<close> leaves the log of the
  Record as it was or appends one transaction to its end, so after any run of calls
  the log is the former log followed by more transactions. A call of \<open>Playback_Tx\<close>
  or \<open>Playback_Write\<close> leaves the log of the Playback as it was or removes its first
  transaction, so after any run of calls the log is a tail of the former log.
\<close>

theorem log_direction:
  "(Record_Ops (fst (snd (Record_Tx r w read))) = Record_Ops r
      \<or> (\<exists>io. Record_Ops (fst (snd (Record_Tx r w read))) = Record_Ops r @ [io]))
   \<and> (Record_Ops (snd (snd (Record_Write r d))) = Record_Ops r
      \<or> (\<exists>io. Record_Ops (snd (snd (Record_Write r d))) = Record_Ops r @ [io]))
   \<and> (\<exists>ios. Record_Ops (snd (Record_calls r cs)) = Record_Ops r @ ios)
   \<and> (Playback_Ops (fst (snd (Playback_Tx p w read))) = Playback_Ops p
      \<or> (\<exists>io. Playback_Ops p = io # Playback_Ops (fst (snd (Playback_Tx p w read)))))
   \<and> (Playback_Ops (snd (snd (Playback_Write p d))) = Playback_Ops p
      \<or> (\<exists>io. Playback_Ops p = io # Playback_Ops (snd (snd (Playback_Write p d)))))
   \<and> (\<exists>ios. Playback_Ops p = ios @ Playback_Ops (snd (Playback_calls p cs)))"
  using Record_Tx_Ops [of r w read] Record_Tx_Ops [of r d "[]"]
    Playback_Tx_Ops [of p w read] Playback_Tx_Ops [of p d "[]"]
    Record_calls_Ops [of r cs] Playback_calls_Ops [of p cs]
  by (simp only: Record_Write_Ops Playback_Write_Ops simp_thms)

theorem log_direction_witness:
  "Record_Ops (fst (snd (Record_Tx \<lparr>Record_Conn = (None :: unit Conn option), Record_Ops = [\<lparr>Write = [0x05], Read = []\<rparr>]\<rparr> [0x01] []))) =
     [\<lparr>Write = [0x05], Read = []\<rparr>] @ [\<lparr>Write = [0x01], Read = []\<rparr>]
   \<and> (\<exists>ios. Record_Ops (snd (Record_calls
          \<lparr>Record_Conn = (None :: unit Conn option), Record_Ops = [\<lparr>Write = [0x05], Read = []\<rparr>]\<rparr> example_calls)) =
        Record_Ops \<lparr>Record_Conn = (None :: unit Conn option), Record_Ops = [\<lparr>Write = [0x05], Read = []\<rparr>]\<rparr> @ ios)
   \<and> (\<exists>ios. Playback_Ops \<lparr>Playback_Ops = [\<lparr>Write = [0x01], Read = []\<rparr>, \<lparr>Write = [0x09], Read = []\<rparr>]\<rparr> =
        ios @ Playback_Ops (snd (Playback_calls
          \<lparr>Playback_Ops = [\<lparr>Write = [0x01], Read = []\<rparr>, \<lparr>Write = [0x09], Read = []\<rparr>]\<rparr> example_calls)))"
proof -
  let ?r = "\<lparr>Record_Conn = (None :: unit Conn option), Record_Ops = [\<lparr>Write = [0x05], Read = []\<rparr>]\<rparr>"
  let ?p = "\<lparr>Playback_Ops = [\<lparr>Write = [0x01], Read = []\<rparr>, \<lparr>Write = [0x09], Read = []\<rparr>]\<rparr>"
  have tx: "Record_Ops (fst (snd (Record_Tx ?r [0x01] []))) =
      [\<lparr>Write = [0x05], Read = []\<rparr>] @ [\<lparr>Write = [0x01], Read = []\<rparr>]"
    by (simp add: Record_Tx_no_Conn)
  from log_direction [of ?r "[0x01]" "[]" "[]" example_calls ?p]
  have "(\<exists>ios. Record_Ops (snd (Record_calls ?r example_calls)) = Record_Ops ?r @ ios)
      \<and> (\<exists>ios. Playback_Ops ?p = ios @ Playback_Ops (snd (Playback_calls ?p example_calls)))"
    by blast
  with tx show ?thesis by blast
qed

text \<open>
  Claim C10. A \<open>Playback_Tx\<close> that returns an error (empty log, write mismatch or
  read-length mismatch) does not write to the caller's read buffer: its contents
  after the call are its contents before it.
\<close>

theorem Playback_Tx_failed_buffer_unchanged:
  assumes "fst (Playback_Tx p w r) \<noteq> None"
  shows "snd (snd (Playback_Tx p w r)) = r"
  using assms Playback_Tx_cases [of p w r] by auto

theorem Playback_Tx_failed_buffer_unchanged_witness:
  "fst (Playback_Tx \<lparr>Playback_Ops = [\<lparr>Write = [], Read = [0x00, 0x00]\<rparr>]\<rparr> [] [0x07]) =
     Some (Errorf_unexpected_read_buffer_length 1 2)
   \<and> snd (snd (Playback_Tx \<lparr>Playback_Ops = [\<lparr>Write = [], Read = [0x00, 0x00]\<rparr>]\<rparr> [] [0x07])) = [0x07]"
proof -
  let ?p = "\<lparr>Playback_Ops = [\<lparr>Write = [], Read = [0x00, 0x00]\<rparr>]\<rparr>"
  have e: "fst (Playback_Tx ?p [] [0x07]) = Some (Errorf_unexpected_read_buffer_length 1 2)"
    by (simp add: Playback_Tx_def bytes_Equal_def)
  then have "fst (Playback_Tx ?p [] [0x07]) \<noteq> None"
    by simp
  from Playback_Tx_failed_buffer_unchanged [OF this] e
  show ?thesis by simp
qed

end
